theory Spec2Isabelle
  imports Main
begin

section \<open>Message types of variant\_topic\_tools\<close>

text \<open>
  A shallow embedding of \<^verbatim>\<open>variant_topic_tools/src/MessageType.cpp\<close>: the class
  \<^verbatim>\<open>MessageType\<close> with its three string members, the validity test, the recursive
  loader \<^verbatim>\<open>load\<close>, the publish and subscribe bindings and the comparison operators.
  A \<^verbatim>\<open>std::string\<close> is a \<^typ>\<open>string\<close>, a thrown exception is the left summand of a
  result or the second component of the state returned by \<^verbatim>\<open>load\<close>.
\<close>

subsection \<open>Exceptions\<close>

text \<open>The exception classes of \<^verbatim>\<open>Exceptions.cpp\<close>, each with its constructor arguments.\<close>

datatype error =
    InvalidOperationException
  | InvalidDataTypeException
  | ImmutableDataTypeException
  | NoSuchDataTypeException string
  | AmbiguousDataTypeIdentifierException string
  | DataTypeMismatchException string string
  | InvalidMessageMemberException
  | NoSuchMessageMemberException nat
  | MD5SumMismatchException string string
  | NoSuchMessageFieldException string
  | InvalidMessageTypeException string
  | DefinitionParseException string string string
  | PackageNotFoundException string
  | FileOpenException string

subsection \<open>The class MessageType\<close>

text \<open>
  The members of the class. The member \<^verbatim>\<open>definition\<close> carries a prime, the word being a
  keyword of the prover.
\<close>

record MessageType =
  dataType :: string
  md5Sum :: string
  definition' :: string

text \<open>\<^verbatim>\<open>MessageType::isValid\<close>.\<close>

definition isValid :: "MessageType \<Rightarrow> bool" where
  "isValid this \<longleftrightarrow>
     md5Sum this \<noteq> [] \<and> (md5Sum this = ''*'' \<or> length (md5Sum this) = 32) \<and>
     dataType this \<noteq> [] \<and> definition' this \<noteq> []"

text \<open>\<^verbatim>\<open>MessageType::clear\<close>.\<close>

definition clear :: "MessageType \<Rightarrow> MessageType" where
  "clear this = this\<lparr>dataType := [], md5Sum := ''*'', definition' := []\<rparr>"

text \<open>\<^verbatim>\<open>MessageType::operator==\<close> and \<^verbatim>\<open>MessageType::operator!=\<close>.\<close>

definition operator_eq :: "MessageType \<Rightarrow> MessageType \<Rightarrow> bool" where
  "operator_eq this type \<longleftrightarrow> dataType this = dataType type \<and> md5Sum this = md5Sum type"

definition operator_neq :: "MessageType \<Rightarrow> MessageType \<Rightarrow> bool" where
  "operator_neq this type \<longleftrightarrow> dataType this \<noteq> dataType type \<or> md5Sum this \<noteq> md5Sum type"

subsection \<open>Collaborators of the loader\<close>

text \<open>
  \<^verbatim>\<open>MessageType::load\<close> calls code that lies outside \<^verbatim>\<open>MessageType.cpp\<close>. Each such
  call is a field of the environment, so that every property below holds for whatever
  these collaborators compute:

  \<^item> \<^verbatim>\<open>ros::package::getPath\<close>, from a package name to its path, empty when the package
    is unknown;
  \<^item> the files that \<^verbatim>\<open>std::ifstream\<close> can open, as a finite list of file names with
    their contents (a name that is not listed does not open);
  \<^item> \<^verbatim>\<open>MessageDefinitionParser::matchArray\<close> and \<^verbatim>\<open>MessageDefinitionParser::match\<close>,
    from a line to the member name, member type (and array size) they recognise;
  \<^item> \<^verbatim>\<open>registry.getDataType(memberType).isBuiltin()\<close>, which answers or throws.
\<close>

record environment =
  getPath :: "string \<Rightarrow> string"
  files :: "(string \<times> string) list"
  matchArray :: "string \<Rightarrow> (string \<times> string \<times> nat) option"
  match :: "string \<Rightarrow> (string \<times> string) option"
  isBuiltin :: "string \<Rightarrow> error + bool"

subsection \<open>Strings\<close>

text \<open>
  \<^verbatim>\<open>std::string::find_first_of\<close> with a single character: the index of its first
  occurrence, \<^verbatim>\<open>npos\<close> being \<^const>\<open>None\<close>.
\<close>

definition find_first_of :: "string \<Rightarrow> char \<Rightarrow> nat option" where
  "find_first_of s c =
     (if c \<in> set s then Some (length (takeWhile (\<lambda>x. x \<noteq> c) s)) else None)"

text \<open>\<^verbatim>\<open>std::string::c_str\<close> as a C string: the characters before the first null.\<close>

definition c_str :: "string \<Rightarrow> string" where
  "c_str s = takeWhile (\<lambda>c. c \<noteq> CHR 0x00) s"

text \<open>
  The lines that successive calls of \<^verbatim>\<open>std::getline\<close> read from a string stream: the
  text is cut at every newline, and a last line need not end with one.
\<close>

function getlines :: "string \<Rightarrow> string list" where
  "getlines [] = []"
| "getlines (c # cs) =
     takeWhile (\<lambda>x. x \<noteq> CHR 0x0A) (c # cs) #
     getlines (drop 1 (dropWhile (\<lambda>x. x \<noteq> CHR 0x0A) (c # cs)))"
  by pat_completeness auto

termination
proof (relation "measure length")
  fix c :: char and cs :: string
  have "length (dropWhile (\<lambda>x. x \<noteq> CHR 0x0A) (c # cs)) \<le> length (c # cs)"
    by (rule length_dropWhile_le)
  then show "(drop 1 (dropWhile (\<lambda>x. x \<noteq> CHR 0x0A) (c # cs)), c # cs) \<in> measure length"
    by auto
qed simp

subsection \<open>One iteration of the loop of load\<close>

text \<open>
  Lines 113 to 120: the identifier is cut at its first slash when that slash is not the
  first character; otherwise the package stays empty and the type is the whole
  identifier. The result is the pair of \<^verbatim>\<open>package\<close> and \<^verbatim>\<open>type\<close>.
\<close>

definition split_type :: "string \<Rightarrow> string \<times> string" where
  "split_type currentType =
     (case find_first_of currentType (CHR ''/'') of
        Some i \<Rightarrow>
          if i > 0 then (take i currentType, drop (i + 1) currentType)
          else ([], currentType)
      | None \<Rightarrow> ([], currentType))"

text \<open>
  Lines 132 to 151: the lookup of the package path and the reading of the whole message
  file \<^verbatim>\<open>packagePath/msg/type.msg\<close>.
\<close>

definition read_message_file :: "environment \<Rightarrow> string \<Rightarrow> string \<Rightarrow> error + string" where
  "read_message_file env package type =
     (let packagePath = getPath env package in
      if packagePath = [] then Inl (PackageNotFoundException package)
      else
        let messageFilename = packagePath @ ''/msg/'' @ type @ ''.msg'' in
        case map_of (files env) (c_str messageFilename) of
          None \<Rightarrow> Inl (FileOpenException messageFilename)
        | Some messageDefinition \<Rightarrow> Inr messageDefinition)"

text \<open>
  Lines 110 to 151: from \<^verbatim>\<open>currentType\<close> to the text of its message file, with the alias
  for \<^verbatim>\<open>Header\<close> and the four exceptions thrown on the way.
\<close>

definition read_definition :: "environment \<Rightarrow> string \<Rightarrow> error + string" where
  "read_definition env currentType =
     (let (package, type) = split_type currentType in
      if package = [] \<and> type \<noteq> ''Header'' then Inl (InvalidMessageTypeException currentType)
      else
        let package = (if package = [] then ''std_msgs'' else package) in
        if type = [] then Inl InvalidDataTypeException
        else read_message_file env package type)"

text \<open>
  Lines 161 to 163: the array form is tried first, then the plain form; only the member
  type is used afterwards.
\<close>

definition member_type :: "environment \<Rightarrow> string \<Rightarrow> string option" where
  "member_type env line =
     (case matchArray env line of
        Some (memberName, memberType, memberSize) \<Rightarrow> Some memberType
      | None \<Rightarrow>
          (case match env line of
             Some (memberName, memberType) \<Rightarrow> Some memberType
           | None \<Rightarrow> None))"

text \<open>
  Lines 161 to 172, the body of the loop over the lines. The state is the pair of
  \<^verbatim>\<open>requiredTypes\<close> and \<^verbatim>\<open>requiredTypesInOrder\<close>. The registry is asked before the
  set is searched.
\<close>

definition scan_line ::
  "environment \<Rightarrow> string \<Rightarrow> string set \<times> string list \<Rightarrow> error + string set \<times> string list" where
  "scan_line env line st =
     (case member_type env line of
        None \<Rightarrow> Inr st
      | Some memberType \<Rightarrow>
          let memberType = (if memberType = ''Header'' then ''std_msgs/Header'' else memberType) in
          case isBuiltin env memberType of
            Inl e \<Rightarrow> Inl e
          | Inr builtin \<Rightarrow>
              if \<not> builtin \<and> memberType \<notin> fst st
              then Inr (insert memberType (fst st), snd st @ [memberType])
              else Inr st)"

fun scan_lines ::
  "environment \<Rightarrow> string list \<Rightarrow> string set \<times> string list \<Rightarrow> error + string set \<times> string list" where
  "scan_lines env [] st = Inr st"
| "scan_lines env (line # lines) st =
     (case scan_line env line st of
        Inl e \<Rightarrow> Inl e
      | Inr st' \<Rightarrow> scan_lines env lines st')"

text \<open>Lines 175 to 179: the separator and the growth of the member \<^verbatim>\<open>definition\<close>.\<close>

definition separator :: "string \<Rightarrow> string" where
  "separator currentType =
     [CHR 0x0A] @ replicate 80 (CHR ''='') @ [CHR 0x0A] @ ''MSG: '' @ currentType @ [CHR 0x0A]"

definition append_definition :: "string \<Rightarrow> string \<Rightarrow> MessageType \<Rightarrow> MessageType" where
  "append_definition currentType messageDefinition this =
     (let this = (if definition' this \<noteq> []
                  then this\<lparr>definition' := definition' this @ separator currentType\<rparr>
                  else this)
      in this\<lparr>definition' := definition' this @ messageDefinition\<rparr>)"

subsection \<open>Termination of the loop\<close>

text \<open>
  Every identifier that the loop can add to the queue is a member type read from one of
  the files, and each is added once. These identifiers are finitely many.
\<close>

definition member_candidates :: "environment \<Rightarrow> string \<Rightarrow> string set" where
  "member_candidates env line =
     (case member_type env line of
        None \<Rightarrow> {}
      | Some t \<Rightarrow> {if t = ''Header'' then ''std_msgs/Header'' else t})"

definition candidates :: "environment \<Rightarrow> string set" where
  "candidates env =
     (\<Union>text \<in> snd ` set (files env). \<Union>line \<in> set (getlines text). member_candidates env line)"

definition loop_measure :: "environment \<Rightarrow> string set \<Rightarrow> string list \<Rightarrow> nat" where
  "loop_measure env req q = 2 * card (candidates env - req) + length q"

lemma finite_candidates: "finite (candidates env)"
  by (auto simp: candidates_def member_candidates_def split: option.splits)

lemma scan_line_Inr:
  assumes "scan_line env line (req, q) = Inr (req', q')"
  shows "\<exists>new. q' = q @ new \<and> req' = req \<union> set new \<and> distinct new \<and> set new \<inter> req = {} \<and>
           set new \<subseteq> member_candidates env line"
  using assms
  by (auto simp: scan_line_def member_candidates_def Let_def
      split: option.splits sum.splits if_splits)

lemma scan_lines_Inr:
  "scan_lines env ls (req, q) = Inr (req', q') \<Longrightarrow>
   \<exists>new. q' = q @ new \<and> req' = req \<union> set new \<and> distinct new \<and> set new \<inter> req = {} \<and>
           set new \<subseteq> (\<Union>l \<in> set ls. member_candidates env l)"
proof (induction ls arbitrary: req q)
  case Nil
  then show ?case by simp
next
  case (Cons l ls)
  from Cons.prems obtain r1 q1 where
    1: "scan_line env l (req, q) = Inr (r1, q1)" and 2: "scan_lines env ls (r1, q1) = Inr (req', q')"
    by (auto split: sum.splits)
  from scan_line_Inr[OF 1] obtain n1 where
    n1: "q1 = q @ n1" "r1 = req \<union> set n1" "distinct n1" "set n1 \<inter> req = {}"
        "set n1 \<subseteq> member_candidates env l" by blast
  from Cons.IH[OF 2] obtain n2 where
    n2: "q' = q1 @ n2" "req' = r1 \<union> set n2" "distinct n2" "set n2 \<inter> r1 = {}"
        "set n2 \<subseteq> (\<Union>l \<in> set ls. member_candidates env l)" by blast
  show ?case
    using n1 n2 by (intro exI[of _ "n1 @ n2"]) auto
qed

lemma read_definition_in_files:
  "read_definition env t = Inr text \<Longrightarrow> text \<in> snd ` set (files env)"
  by (auto simp: read_definition_def read_message_file_def Let_def
      split: prod.splits if_splits option.splits dest!: map_of_SomeD intro: rev_image_eqI)

lemma loop_measure_scan:
  assumes "read_definition env cur = Inr text"
    and "scan_lines env (getlines text) (req, cur # pending) = Inr (req', q')"
  shows "loop_measure env req' (tl q') < loop_measure env req (cur # pending)"
proof -
  from scan_lines_Inr[OF assms(2)] obtain new where
    n: "q' = (cur # pending) @ new" "req' = req \<union> set new" "distinct new" "set new \<inter> req = {}"
       "set new \<subseteq> (\<Union>l \<in> set (getlines text). member_candidates env l)" by blast
  have "set new \<subseteq> candidates env"
    using n(5) read_definition_in_files[OF assms(1)] by (force simp: candidates_def)
  with n(4) have sub: "set new \<subseteq> candidates env - req" by auto
  have "candidates env - req' = (candidates env - req) - set new"
    using n(2) by auto
  then have "card (candidates env - req') = card (candidates env - req) - card (set new)"
    using sub finite_candidates by (simp add: card_Diff_subset)
  moreover have "card (set new) = length new" using n(3) by (simp add: distinct_card)
  moreover have "card (set new) \<le> card (candidates env - req)"
    using sub finite_candidates by (simp add: card_mono)
  ultimately show ?thesis
    using n(1) by (simp add: loop_measure_def)
qed

subsection \<open>The loader\<close>

text \<open>
  Lines 109 to 183, the loop over \<^verbatim>\<open>requiredTypesInOrder\<close>. The arguments are the set
  \<^verbatim>\<open>requiredTypes\<close>, the queue and the object; the result is the object as the loop
  leaves it, with the exception that ended the loop, if any. An exception leaves the
  object as the iterations before it made it.
\<close>

function load_loop ::
  "environment \<Rightarrow> string set \<Rightarrow> string list \<Rightarrow> MessageType \<Rightarrow> MessageType \<times> error option" where
  "load_loop env requiredTypes [] this = (this, None)"
| "load_loop env requiredTypes (currentType # pending) this =
     (case read_definition env currentType of
        Inl e \<Rightarrow> (this, Some e)
      | Inr messageDefinition \<Rightarrow>
          if messageDefinition \<noteq> [] then
            (case scan_lines env (getlines messageDefinition)
                    (requiredTypes, currentType # pending) of
               Inl e \<Rightarrow> (this, Some e)
             | Inr (requiredTypes', requiredTypesInOrder') \<Rightarrow>
                 load_loop env requiredTypes' (tl requiredTypesInOrder')
                   (append_definition currentType messageDefinition this))
          else load_loop env requiredTypes pending this)"
  by pat_completeness auto

termination
  by (relation "measure (\<lambda>(env, req, q, this). loop_measure env req q)")
     (auto simp: loop_measure_scan, simp add: loop_measure_def)

text \<open>\<^verbatim>\<open>MessageType::load\<close>, lines 99 to 187.\<close>

definition load :: "environment \<Rightarrow> string \<Rightarrow> MessageType \<Rightarrow> MessageType \<times> error option" where
  "load env messageDataType this =
     (case load_loop env {messageDataType} [messageDataType] (clear this) of
        (this', Some e) \<Rightarrow> (this', Some e)
      | (this', None) \<Rightarrow>
          (if definition' this' \<noteq> [] then this'\<lparr>dataType := messageDataType\<rparr> else this', None))"

subsection \<open>Publishers and subscribers\<close>

text \<open>
  Modelled from the spec: the classes \<^verbatim>\<open>Publisher\<close> and \<^verbatim>\<open>Subscriber\<close>, whose
  declarations are in other files. A handle owns a possibly null pointer \<^verbatim>\<open>impl\<close>; it is
  bound when the pointer is set and inert when it is null, as a default-constructed
  handle is. An implementation object is the record of its constructor's arguments.
\<close>

datatype ('n, 'c) PublisherImpl = PublisherImpl 'n MessageType string nat bool 'c

datatype ('n, 'c) Publisher = Publisher (publisher_impl: "('n, 'c) PublisherImpl option")

datatype ('n, 'c) SubscriberImpl = SubscriberImpl 'n MessageType string nat 'c

datatype ('n, 'c) Subscriber = Subscriber (subscriber_impl: "('n, 'c) SubscriberImpl option")

text \<open>
  \<^verbatim>\<open>MessageType::advertise\<close> and \<^verbatim>\<open>MessageType::subscribe\<close>: the handle starts
  inert, and \<^verbatim>\<open>impl.reset\<close> replaces its pointer.
\<close>

definition advertise ::
  "MessageType \<Rightarrow> 'n \<Rightarrow> string \<Rightarrow> nat \<Rightarrow> bool \<Rightarrow> 'c \<Rightarrow> ('n, 'c) Publisher" where
  "advertise this nodeHandle topic queueSize latch connectCallback =
     (let publisher = (Publisher None :: ('n, 'c) Publisher) in
      if isValid this
      then (case publisher of
              Publisher impl \<Rightarrow>
                Publisher (Some (PublisherImpl nodeHandle this topic queueSize latch
                  connectCallback)))
      else publisher)"

definition subscribe ::
  "MessageType \<Rightarrow> 'n \<Rightarrow> string \<Rightarrow> nat \<Rightarrow> 'c \<Rightarrow> ('n, 'c) Subscriber" where
  "subscribe this nodeHandle topic queueSize callback =
     (let subscriber = (Subscriber None :: ('n, 'c) Subscriber) in
      case subscriber of
        Subscriber impl \<Rightarrow>
          Subscriber (Some (SubscriberImpl nodeHandle this topic queueSize callback)))"

subsection \<open>The order of loading and the blocks of the definition\<close>

text \<open>
  The values that \<^verbatim>\<open>currentType\<close> takes in the iterations of the loop that run to their
  end, in order: these are the types whose files the loop has read and scanned. The
  recursion is that of \<^const>\<open>load_loop\<close>.
\<close>

function processed_types :: "environment \<Rightarrow> string set \<Rightarrow> string list \<Rightarrow> string list" where
  "processed_types env requiredTypes [] = []"
| "processed_types env requiredTypes (currentType # pending) =
     (case read_definition env currentType of
        Inl e \<Rightarrow> []
      | Inr messageDefinition \<Rightarrow>
          if messageDefinition \<noteq> [] then
            (case scan_lines env (getlines messageDefinition)
                    (requiredTypes, currentType # pending) of
               Inl e \<Rightarrow> []
             | Inr (requiredTypes', requiredTypesInOrder') \<Rightarrow>
                 currentType # processed_types env requiredTypes' (tl requiredTypesInOrder'))
          else currentType # processed_types env requiredTypes pending)"
  by pat_completeness auto

termination
  by (relation "measure (\<lambda>(env, req, q). loop_measure env req q)")
     (auto simp: loop_measure_scan, simp add: loop_measure_def)

text \<open>The text of the message file of a type, empty when it cannot be read.\<close>

definition raw_text :: "environment \<Rightarrow> string \<Rightarrow> string" where
  "raw_text env t = (case read_definition env t of Inl e \<Rightarrow> [] | Inr text \<Rightarrow> text)"

text \<open>
  What one type adds to the text gathered so far: nothing when its file is empty, its
  text alone when nothing has been gathered, the separator and its text otherwise.
\<close>

definition emit :: "environment \<Rightarrow> string \<Rightarrow> string \<Rightarrow> string" where
  "emit env acc t =
     (if raw_text env t = [] then acc
      else (if acc = [] then [] else acc @ separator t) @ raw_text env t)"

text \<open>
  The block of a type that is not the first one: the separator and the text, and nothing
  at all for an empty file. The second definition is the block as the specification
  words it, with a separator for every type.
\<close>

definition block :: "environment \<Rightarrow> string \<Rightarrow> string" where
  "block env t = (if raw_text env t = [] then [] else separator t @ raw_text env t)"

definition block_as_specified :: "environment \<Rightarrow> string \<Rightarrow> string" where
  "block_as_specified env t = separator t @ raw_text env t"

text \<open>
  The member types of a type that the registry does not classify as builtin, in the
  order of the lines of its file, \<^verbatim>\<open>Header\<close> written in full.
\<close>

definition compound_of_line :: "environment \<Rightarrow> string \<Rightarrow> string list" where
  "compound_of_line env line =
     (case member_type env line of
        None \<Rightarrow> []
      | Some memberType \<Rightarrow>
          let memberType = (if memberType = ''Header'' then ''std_msgs/Header'' else memberType) in
          case isBuiltin env memberType of
            Inr False \<Rightarrow> [memberType]
          | _ \<Rightarrow> [])"

definition compound_members :: "environment \<Rightarrow> string \<Rightarrow> string list" where
  "compound_members env t = concat (map (compound_of_line env) (getlines (raw_text env t)))"

text \<open>
  The first occurrences in a list of the elements outside a set of elements already
  seen, in the order of the list.
\<close>

fun first_occurrences :: "'a set \<Rightarrow> 'a list \<Rightarrow> 'a list" where
  "first_occurrences seen [] = []"
| "first_occurrences seen (x # xs) =
     (if x \<in> seen then first_occurrences seen xs
      else x # first_occurrences (insert x seen) xs)"

subsection \<open>A small installation\<close>

text \<open>
  An environment to run the loader on: two packages, a plain parser that cuts a line at
  its first blank into type and name, and a registry that knows three builtin types.
  The file of \<^verbatim>\<open>p/A\<close> names a type of a package that is not installed; the file of
  \<^verbatim>\<open>p/E\<close> is empty; \<^verbatim>\<open>p/R\<close> reaches \<^verbatim>\<open>p/T\<close> along three paths.
\<close>

definition demo_match :: "string \<Rightarrow> (string \<times> string) option" where
  "demo_match line =
     (if CHR '' '' \<in> set line
      then Some (drop 1 (dropWhile (\<lambda>c. c \<noteq> CHR '' '') line),
                 takeWhile (\<lambda>c. c \<noteq> CHR '' '') line)
      else None)"

definition demo_env :: environment where
  "demo_env =
     \<lparr>getPath = (\<lambda>p. if p = ''p'' then ''/p'' else if p = ''std_msgs'' then ''/std'' else []),
      files =
        [(''/p/msg/A.msg'', ''q/B b''),
         (''/p/msg/C.msg'', ''p/E e''),
         (''/p/msg/E.msg'', []),
         (''/p/msg/R.msg'', ''p/S a'' @ [CHR 0x0A] @ ''p/T b'' @ [CHR 0x0A] @ ''p/S c''),
         (''/p/msg/S.msg'', ''p/T t''),
         (''/p/msg/T.msg'', ''int32 y''),
         (''/std/msg/Header.msg'', ''uint32 seq'')],
      matchArray = (\<lambda>line. None),
      match = demo_match,
      isBuiltin = (\<lambda>t. Inr (t \<in> set [''int32'', ''uint32'', ''string'']))\<rparr>"

definition stale_type :: MessageType where
  "stale_type = \<lparr>dataType = ''old/Type'', md5Sum = ''0123'', definition' = ''old text''\<rparr>"

text \<open>
  The same installation with one more file: \<^verbatim>\<open>p/Q\<close> names \<^verbatim>\<open>p/E\<close>, whose file is empty,
  in two member fields. In the second variant the registry classifies \<^verbatim>\<open>p/E\<close> as builtin,
  so that it is never loaded.
\<close>

definition twice_env :: environment where
  "twice_env =
     demo_env\<lparr>files :=
       (''/p/msg/Q.msg'', ''p/E a'' @ [CHR 0x0A] @ ''p/E b'') # files demo_env\<rparr>"

definition twice_builtin_env :: environment where
  "twice_builtin_env =
     twice_env\<lparr>isBuiltin :=
       (\<lambda>t. Inr (t \<in> set [''int32'', ''uint32'', ''string'', ''p/E'']))\<rparr>"

subsection \<open>The validity test as the specification words it\<close>

text \<open>
  The specification asks for a signature of exactly 32 hexadecimal characters. The
  following predicate follows those words (digits and the letters a to f, in either
  case), to be compared with \<^const>\<open>isValid\<close>.
\<close>

definition is_hex_char :: "char \<Rightarrow> bool" where
  "is_hex_char c \<longleftrightarrow> c \<in> set ''0123456789abcdefABCDEF''"

definition isValid_spec :: "MessageType \<Rightarrow> bool" where
  "isValid_spec this \<longleftrightarrow>
     md5Sum this \<noteq> [] \<and>
     (md5Sum this = ''*'' \<or> (length (md5Sum this) = 32 \<and> list_all is_hex_char (md5Sum this))) \<and>
     dataType this \<noteq> [] \<and> definition' this \<noteq> []"

definition non_hex_type :: MessageType where
  "non_hex_type =
     \<lparr>dataType = ''pkg/Type'', md5Sum = ''zzzzzzzzzzzzzzzzzzzzzzzzzzzzzzzz'', definition' = ''field1''\<rparr>"

section \<open>Properties\<close>

subsection \<open>Validity\<close>

text \<open>
  Claim C2, as stated: \<^verbatim>\<open>isValid()\<close> holds exactly when the signature is the wildcard
  token or 32 hexadecimal characters and the data type and the definition are not empty.
  The code looks at the length of the signature only: a signature of 32 letters
  \<^verbatim>\<open>z\<close> is valid for the code and invalid for the claim.
\<close>

theorem isValid_hex_counterexample:
  "isValid non_hex_type \<and> \<not> isValid_spec non_hex_type"
  by (simp add: isValid_def isValid_spec_def non_hex_type_def is_hex_char_def)

text \<open>
  Claim C2, amended: \<^verbatim>\<open>isValid()\<close> holds exactly when the signature is the wildcard
  token or has exactly 32 characters, of any kind, and the data type and the definition
  are not empty.
\<close>

theorem isValid_iff_length:
  "isValid this \<longleftrightarrow>
     (md5Sum this = ''*'' \<or> length (md5Sum this) = 32) \<and>
     dataType this \<noteq> [] \<and> definition' this \<noteq> []"
  by (auto simp add: isValid_def)

theorem isValid_iff_length_witness:
  "isValid \<lparr>dataType = ''pkg/Type'', md5Sum = ''*'', definition' = ''field1''\<rparr> \<and>
   isValid non_hex_type \<and> \<not> isValid (clear stale_type)"
  using isValid_iff_length[of "\<lparr>dataType = ''pkg/Type'', md5Sum = ''*'', definition' = ''field1''\<rparr>"]
    isValid_iff_length[of non_hex_type] isValid_iff_length[of "clear stale_type"]
  by (simp add: clear_def non_hex_type_def)

subsection \<open>Comparison\<close>

text \<open>
  Claim C7: two message types are equal exactly when their data types and their
  signatures agree; the definition text plays no part, so changing it on either side
  changes nothing; and \<^verbatim>\<open>operator!=\<close> is the negation of \<^verbatim>\<open>operator==\<close>.
\<close>

theorem operator_eq_ignores_definition:
  "(operator_eq a b \<longleftrightarrow> dataType a = dataType b \<and> md5Sum a = md5Sum b) \<and>
   operator_eq (a\<lparr>definition' := d\<rparr>) (b\<lparr>definition' := d'\<rparr>) = operator_eq a b \<and>
   (operator_neq a b \<longleftrightarrow> \<not> operator_eq a b)"
  by (auto simp add: operator_eq_def operator_neq_def)

theorem operator_eq_ignores_definition_witness:
  "operator_eq \<lparr>dataType = ''pkg/Type'', md5Sum = ''*'', definition' = ''field1''\<rparr>
     \<lparr>dataType = ''pkg/Type'', md5Sum = ''*'', definition' = ''field2''\<rparr> \<and>
   \<not> operator_neq \<lparr>dataType = ''pkg/Type'', md5Sum = ''*'', definition' = ''field1''\<rparr>
     \<lparr>dataType = ''pkg/Type'', md5Sum = ''*'', definition' = ''field2''\<rparr>"
  using operator_eq_ignores_definition[of
      "\<lparr>dataType = ''pkg/Type'', md5Sum = ''*'', definition' = ''field1''\<rparr>"
      "\<lparr>dataType = ''pkg/Type'', md5Sum = ''*'', definition' = ''field2''\<rparr>"]
  by simp

subsection \<open>Publishing and subscribing\<close>

text \<open>
  Claim C8: \<^verbatim>\<open>advertise()\<close> returns a bound publisher, built from its arguments, exactly
  when the message type is valid, and an inert handle otherwise, without any exception;
  \<^verbatim>\<open>subscribe()\<close> returns a bound subscriber whatever the validity of the message type.
\<close>

theorem advertise_gated_subscribe_not:
  "publisher_impl (advertise this n topic k latch cb) =
     (if isValid this then Some (PublisherImpl n this topic k latch cb) else None) \<and>
   subscriber_impl (subscribe this n topic k cb') = Some (SubscriberImpl n this topic k cb')"
  by (simp add: advertise_def subscribe_def)

theorem advertise_gated_subscribe_not_witness:
  "\<not> isValid (clear stale_type) \<and>
   publisher_impl (advertise (clear stale_type) () ''topic'' 10 False ()) = None \<and>
   subscriber_impl (subscribe (clear stale_type) () ''topic'' 10 ()) =
     Some (SubscriberImpl () (clear stale_type) ''topic'' 10 ())"
  using advertise_gated_subscribe_not[of "clear stale_type" "()" "''topic''" 10 False "()" "()"]
  by (simp add: isValid_def clear_def)

subsection \<open>What the loop does to the object\<close>

lemma clear_eq: "clear this = \<lparr>dataType = [], md5Sum = ''*'', definition' = []\<rparr>"
  by (cases this) (simp add: clear_def)

text \<open>The loop writes neither the data type nor the signature.\<close>

lemma load_loop_frame:
  "dataType (fst (load_loop env req q this)) = dataType this \<and>
   md5Sum (fst (load_loop env req q this)) = md5Sum this"
  by (induction env req q this rule: load_loop.induct)
     (auto simp: append_definition_def Let_def split: sum.splits prod.splits)

lemma emit_append_definition:
  "read_definition env cur = Inr body \<Longrightarrow> body \<noteq> [] \<Longrightarrow>
   definition' (append_definition cur body this) = emit env (definition' this) cur"
  by (simp add: append_definition_def emit_def raw_text_def Let_def)

lemma emit_empty:
  "read_definition env cur = Inr [] \<Longrightarrow> emit env acc cur = acc"
  by (simp add: emit_def raw_text_def)

lemma emit_Nil: "emit env [] t = raw_text env t"
  by (simp add: emit_def)

text \<open>
  Whether the loop ends normally or with an exception, the definition it leaves is the
  one it started from, extended by the types it has processed, in order.
\<close>

lemma load_loop_definition:
  "definition' (fst (load_loop env req q this)) =
   foldl (emit env) (definition' this) (processed_types env req q)"
proof (induction env req q this rule: load_loop.induct)
  case (1 env requiredTypes this)
  then show ?case by simp
next
  case (2 env requiredTypes currentType pending this)
  show ?case
  proof (cases "read_definition env currentType")
    case (Inl e)
    then show ?thesis by simp
  next
    case (Inr body)
    show ?thesis
    proof (cases "body = []")
      case True
      then show ?thesis using Inr 2(2) by (simp add: emit_empty)
    next
      case False
      show ?thesis
      proof (cases "scan_lines env (getlines body) (requiredTypes, currentType # pending)")
        case (Inl e)
        then show ?thesis using Inr False by simp
      next
        case scan: (Inr st)
        obtain req' q' where st: "st = (req', q')" by (cases st)
        show ?thesis
          using Inr False scan st 2(1)[OF Inr False scan[unfolded st] refl]
          by (simp add: emit_append_definition)
      qed
    qed
  qed
qed

text \<open>The result of \<^const>\<open>load\<close> in one equation.\<close>

lemma load_result:
  "load env root this =
     (\<lparr>dataType =
         (if snd (load_loop env {root} [root] (clear this)) = None \<and>
             foldl (emit env) [] (processed_types env {root} [root]) \<noteq> []
          then root else []),
       md5Sum = ''*'',
       definition' = foldl (emit env) [] (processed_types env {root} [root])\<rparr>,
      snd (load_loop env {root} [root] (clear this)))"
proof -
  obtain m r where L: "load_loop env {root} [root] (clear this) = (m, r)"
    by (cases "load_loop env {root} [root] (clear this)")
  have d: "definition' m = foldl (emit env) [] (processed_types env {root} [root])"
    using load_loop_definition[of env "{root}" "[root]" "clear this"] L by (simp add: clear_eq)
  have f: "dataType m = []" "md5Sum m = ''*''"
    using load_loop_frame[of env "{root}" "[root]" "clear this"] L by (simp_all add: clear_eq)
  show ?thesis
    using d f L by (cases m; cases r) (auto simp: load_def)
qed

lemma load_read_failure:
  "read_definition env root = Inl e \<Longrightarrow> load env root this = (clear this, Some e)"
  by (simp add: load_def)

lemma foldl_emit_nonempty:
  "acc \<noteq> [] \<Longrightarrow> foldl (emit env) acc ts = acc @ concat (map (block env) ts)"
  by (induction ts arbitrary: acc) (auto simp: emit_def block_def)

subsection \<open>The queue is served in the order of discovery\<close>

lemma first_occurrences_append:
  "first_occurrences seen (xs @ ys) =
   first_occurrences seen xs @ first_occurrences (seen \<union> set xs) ys"
  by (induction xs arbitrary: seen) (auto simp: insert_absorb)

lemma set_first_occurrences: "set (first_occurrences seen xs) = set xs - seen"
  by (induction xs arbitrary: seen) auto

lemma distinct_first_occurrences: "distinct (first_occurrences seen xs)"
  by (induction xs arbitrary: seen) (auto simp: set_first_occurrences)

text \<open>
  A line that is scanned without an exception appends to the queue the compound member
  type it declares, unless the set holds it already.
\<close>

lemma scan_line_compound:
  assumes "scan_line env line (req, q) = Inr (req', q')"
  shows "q' = q @ first_occurrences req (compound_of_line env line) \<and>
         req' = req \<union> set (compound_of_line env line)"
proof (cases "member_type env line")
  case None
  then show ?thesis using assms by (simp add: scan_line_def compound_of_line_def)
next
  case (Some m)
  define m' where "m' = (if m = ''Header'' then ''std_msgs/Header'' else m)"
  show ?thesis
  proof (cases "isBuiltin env m'")
    case (Inl e)
    then show ?thesis using assms Some
      by (cases "m = ''Header''") (simp_all add: scan_line_def m'_def Let_def)
  next
    case (Inr b)
    have c: "compound_of_line env line = (if b then [] else [m'])"
      using Some Inr
      by (cases "m = ''Header''") (simp_all add: compound_of_line_def m'_def Let_def)
    have s: "(if \<not> b \<and> m' \<notin> req then Inr (insert m' req, q @ [m']) else Inr (req, q)) =
             (Inr (req', q') :: error + string set \<times> string list)"
      using assms Some Inr
      by (cases "m = ''Header''") (auto simp add: scan_line_def m'_def Let_def split: if_splits)
    show ?thesis
    proof (cases "\<not> b \<and> m' \<notin> req")
      case True
      then show ?thesis using s c by auto
    next
      case False
      then show ?thesis using s c by (auto simp: insert_absorb)
    qed
  qed
qed

lemma scan_lines_compound:
  "scan_lines env ls (req, q) = Inr (req', q') \<Longrightarrow>
   q' = q @ first_occurrences req (concat (map (compound_of_line env) ls)) \<and>
   req' = req \<union> set (concat (map (compound_of_line env) ls))"
proof (induction ls arbitrary: req q)
  case Nil
  then show ?case by simp
next
  case (Cons l ls)
  from Cons.prems obtain r1 q1 where
    1: "scan_line env l (req, q) = Inr (r1, q1)" and 2: "scan_lines env ls (r1, q1) = Inr (req', q')"
    by (auto split: sum.splits)
  show ?case
    using scan_line_compound[OF 1] Cons.IH[OF 2]
    by (simp add: first_occurrences_append Un_assoc)
qed

text \<open>
  When the loop ends normally, the types it has processed are the pending ones, in the
  order of the queue, followed by the first occurrences of the compound members of the
  processed types that the set did not hold.
\<close>

lemma processed_types_fifo:
  "snd (load_loop env req q this) = None \<Longrightarrow>
   processed_types env req q =
   q @ first_occurrences req (concat (map (compound_members env) (processed_types env req q)))"
proof (induction env req q this rule: load_loop.induct)
  case (1 env requiredTypes this)
  then show ?case by simp
next
  case (2 env requiredTypes currentType pending this)
  show ?case
  proof (cases "read_definition env currentType")
    case (Inl e)
    then show ?thesis using 2(3) by simp
  next
    case (Inr body)
    show ?thesis
    proof (cases "body = []")
      case True
      then have "compound_members env currentType = []"
        using Inr by (simp add: compound_members_def raw_text_def)
      then show ?thesis using Inr True 2(2)[OF Inr] 2(3) by simp
    next
      case False
      show ?thesis
      proof (cases "scan_lines env (getlines body) (requiredTypes, currentType # pending)")
        case (Inl e)
        then show ?thesis using Inr False 2(3) by simp
      next
        case scan: (Inr st)
        obtain req' q' where st: "st = (req', q')" by (cases st)
        have cm: "concat (map (compound_of_line env) (getlines body)) =
                  compound_members env currentType"
          using Inr by (simp add: compound_members_def raw_text_def)
        from scan_lines_compound[OF scan[unfolded st]] cm
        have q': "q' = (currentType # pending) @
                    first_occurrences requiredTypes (compound_members env currentType)"
          and req': "req' = requiredTypes \<union> set (compound_members env currentType)"
          by simp_all
        have succ: "snd (load_loop env req' (tl q') (append_definition currentType body this)) = None"
          using 2(3) Inr False scan st by simp
        have IH: "processed_types env req' (tl q') =
            tl q' @ first_occurrences req'
              (concat (map (compound_members env) (processed_types env req' (tl q'))))"
          using 2(1)[OF Inr False scan[unfolded st] refl succ] .
        have P: "processed_types env requiredTypes (currentType # pending) =
            currentType # processed_types env req' (tl q')"
          using Inr False scan st by simp
        show ?thesis
          unfolding P using IH q' req'
          by (simp add: first_occurrences_append)
      qed
    qed
  qed
qed

lemma processed_types_root:
  "snd (load_loop env req [root] this) = None \<Longrightarrow>
   processed_types env req [root] = root # tl (processed_types env req [root]) \<and>
   (raw_text env root = [] \<longrightarrow> processed_types env req [root] = [root])"
  by (cases "read_definition env root")
     (auto simp: raw_text_def split: sum.splits prod.splits if_splits)

lemma processed_types_no_compound:
  assumes "snd (load_loop env req [root] this) = None" and "compound_members env root = []"
  shows "processed_types env req [root] = [root]"
proof (cases "read_definition env root")
  case (Inl e)
  then show ?thesis using assms(1) by simp
next
  case (Inr body)
  show ?thesis
  proof (cases "body = []")
    case True
    then show ?thesis using Inr by simp
  next
    case False
    show ?thesis
    proof (cases "scan_lines env (getlines body) (req, [root])")
      case (Inl e)
      then show ?thesis using assms(1) Inr False by simp
    next
      case scan: (Inr st)
      obtain req' q' where st: "st = (req', q')" by (cases st)
      have "concat (map (compound_of_line env) (getlines body)) = []"
        using assms(2) Inr by (simp add: compound_members_def raw_text_def)
      with scan_lines_compound[OF scan[unfolded st]] have "q' = [root]" by simp
      then show ?thesis using Inr False scan st by simp
    qed
  qed
qed

lemma split_type_no_slash: "CHR ''/'' \<notin> set s \<Longrightarrow> split_type s = ([], s)"
  by (simp add: split_type_def find_first_of_def)

lemma split_type_leading_slash: "split_type (CHR ''/'' # s) = ([], CHR ''/'' # s)"
  by (simp add: split_type_def find_first_of_def)

subsection \<open>Failure\<close>

text \<open>
  Claim C1, as stated: when \<^verbatim>\<open>load()\<close> throws, the object is left cleared, with an empty
  data type, the wildcard signature and an empty definition. The loop gathers the text
  in the member \<^verbatim>\<open>definition\<close> itself: when the file of \<^verbatim>\<open>p/A\<close> has been read and the
  package of its member \<^verbatim>\<open>q/B\<close> is not found, the text of \<^verbatim>\<open>p/A\<close> stays in the object.
\<close>

theorem load_failure_counterexample:
  "snd (load demo_env ''p/A'' stale_type) = Some (PackageNotFoundException ''q'') \<and>
   definition' (fst (load demo_env ''p/A'' stale_type)) = ''q/B b'' \<and>
   fst (load demo_env ''p/A'' stale_type) \<noteq> clear stale_type"
  by code_simp

text \<open>
  Claim C1, amended: when \<^verbatim>\<open>load()\<close> throws, the data type is empty and the signature is
  the wildcard token; the definition holds the blocks of the types processed before the
  one that failed, and nothing of the object's earlier state. It is empty when the file
  of the root type itself cannot be read.
\<close>

theorem load_failure_state:
  assumes "load env root this = (this', Some e)"
  shows "dataType this' = [] \<and> md5Sum this' = ''*'' \<and>
         definition' this' = foldl (emit env) [] (processed_types env {root} [root]) \<and>
         ((\<exists>e'. read_definition env root = Inl e') \<longrightarrow> definition' this' = [])"
proof -
  have t: "this' = \<lparr>dataType = [], md5Sum = ''*'',
              definition' = foldl (emit env) [] (processed_types env {root} [root])\<rparr>"
    using assms unfolding load_result by auto
  have "(\<exists>e'. read_definition env root = Inl e') \<longrightarrow> processed_types env {root} [root] = []"
    by auto
  then show ?thesis using t by auto
qed

theorem load_failure_state_witness:
  "load demo_env ''p/A'' stale_type =
     (\<lparr>dataType = [], md5Sum = ''*'', definition' = ''q/B b''\<rparr>,
      Some (PackageNotFoundException ''q'')) \<and>
   dataType \<lparr>dataType = [], md5Sum = ''*'', definition' = ''q/B b''\<rparr> = [] \<and>
   md5Sum \<lparr>dataType = [], md5Sum = ''*'', definition' = ''q/B b''\<rparr> = ''*'' \<and>
   ''q/B b'' = foldl (emit demo_env) [] (processed_types demo_env {''p/A''} [''p/A''])"
proof -
  have h: "load demo_env ''p/A'' stale_type =
     (\<lparr>dataType = [], md5Sum = ''*'', definition' = ''q/B b''\<rparr>,
      Some (PackageNotFoundException ''q''))"
    by code_simp
  from load_failure_state[OF h] h show ?thesis by simp
qed

subsection \<open>The signature\<close>

text \<open>
  Claim C9: \<^verbatim>\<open>load()\<close> never computes the signature: however it ends, normally or with an
  exception, and whatever the object held before, the signature of the object is the
  wildcard token that \<^verbatim>\<open>clear()\<close> has set. The object has no field besides the data type,
  the signature and the definition.
\<close>

theorem load_signature_wildcard:
  "md5Sum (fst (load env messageDataType this)) = ''*''"
  by (simp add: load_result)

theorem load_signature_wildcard_witness:
  "md5Sum (fst (load demo_env ''p/A'' stale_type)) = ''*'' \<and>
   md5Sum (fst (load demo_env ''p/R'' stale_type)) = ''*'' \<and> md5Sum stale_type = ''0123''"
  using load_signature_wildcard[of demo_env "''p/A''" stale_type]
    load_signature_wildcard[of demo_env "''p/R''" stale_type]
  by (simp add: stale_type_def)

subsection \<open>Identifiers without a package\<close>

text \<open>
  Claim C10: an identifier that starts with the separator is not cut: \<^verbatim>\<open>load()\<close> throws
  the invalid message type exception, which carries the whole identifier, and leaves the
  object cleared. This holds for \<^verbatim>\<open>/Header\<close> too, whose type keeps the slash and is not
  the reserved word.
\<close>

theorem load_leading_separator:
  "load env (CHR ''/'' # rest) this =
     (clear this, Some (InvalidMessageTypeException (CHR ''/'' # rest)))"
  by (rule load_read_failure) (simp add: read_definition_def split_type_leading_slash)

theorem load_leading_separator_witness:
  "load demo_env ''/Header'' stale_type =
     (\<lparr>dataType = [], md5Sum = ''*'', definition' = []\<rparr>,
      Some (InvalidMessageTypeException ''/Header''))"
  using load_leading_separator[of demo_env "''Header''" stale_type]
  by (simp add: clear_eq)

text \<open>
  Claim C5: for an identifier without a separator, the bare name \<^verbatim>\<open>Header\<close> is read as
  the type \<^verbatim>\<open>Header\<close> of the package \<^verbatim>\<open>std_msgs\<close>, and the loop goes on to look that
  package up; any other bare name is refused with the invalid message type exception,
  wherever the loop meets it, and \<^verbatim>\<open>load()\<close> of such a name throws it.
\<close>

theorem load_unqualified:
  assumes "CHR ''/'' \<notin> set ident"
  shows "(ident = ''Header'' \<longrightarrow>
            read_definition env ident = read_message_file env ''std_msgs'' ''Header'') \<and>
         (ident \<noteq> ''Header'' \<longrightarrow>
            read_definition env ident = Inl (InvalidMessageTypeException ident) \<and>
            load env ident this = (clear this, Some (InvalidMessageTypeException ident)))"
proof (intro conjI impI)
  assume "ident = ''Header''"
  then show "read_definition env ident = read_message_file env ''std_msgs'' ''Header''"
    by (simp add: read_definition_def split_type_no_slash)
next
  assume "ident \<noteq> ''Header''"
  then show r: "read_definition env ident = Inl (InvalidMessageTypeException ident)"
    using assms by (simp add: read_definition_def split_type_no_slash)
  then show "load env ident this = (clear this, Some (InvalidMessageTypeException ident))"
    by (rule load_read_failure)
qed

theorem load_unqualified_witness:
  "CHR ''/'' \<notin> set ''Foo'' \<and>
   load demo_env ''Foo'' stale_type =
     (clear stale_type, Some (InvalidMessageTypeException ''Foo'')) \<and>
   CHR ''/'' \<notin> set ''Header'' \<and>
   read_definition demo_env ''Header'' = read_message_file demo_env ''std_msgs'' ''Header'' \<and>
   load demo_env ''Header'' stale_type =
     (\<lparr>dataType = ''Header'', md5Sum = ''*'', definition' = ''uint32 seq''\<rparr>, None)"
proof -
  have s: "CHR ''/'' \<notin> set ''Foo''" "CHR ''/'' \<notin> set ''Header''" by simp_all
  have l: "load demo_env ''Header'' stale_type =
     (\<lparr>dataType = ''Header'', md5Sum = ''*'', definition' = ''uint32 seq''\<rparr>, None)"
    by code_simp
  from load_unqualified[OF s(1), of demo_env stale_type]
    load_unqualified[OF s(2), of demo_env stale_type] s l
  show ?thesis by simp
qed

subsection \<open>The definition of a successful load\<close>

text \<open>
  Claim C6, as stated: for a root type without compound members, a load that ends
  normally leaves the text of the root file as the definition and the root identifier as
  the data type. When the root file is empty the load ends normally as well, and the data
  type stays empty.
\<close>

theorem load_without_compound_members_counterexample:
  "snd (load demo_env ''p/E'' stale_type) = None \<and>
   compound_members demo_env ''p/E'' = [] \<and>
   dataType (fst (load demo_env ''p/E'' stale_type)) \<noteq> ''p/E''"
  by code_simp

text \<open>
  Claim C6, amended: for a root type without compound members, a load that ends normally
  leaves exactly the text of the root file as the definition, with no separator; the data
  type is the root identifier when that text is not empty, and stays empty when it is.
\<close>

theorem load_without_compound_members:
  assumes "load env root this = (this', None)" and "compound_members env root = []"
  shows "definition' this' = raw_text env root \<and>
         dataType this' = (if raw_text env root = [] then [] else root)"
proof -
  have r: "snd (load_loop env {root} [root] (clear this)) = None"
    using assms(1) unfolding load_result by simp
  have p: "processed_types env {root} [root] = [root]"
    using processed_types_no_compound[OF r assms(2)] .
  show ?thesis
    using assms(1) unfolding load_result p r
    by (auto simp: emit_Nil simp del: processed_types.simps load_loop.simps)
qed

theorem load_without_compound_members_witness:
  "load demo_env ''p/T'' stale_type =
     (\<lparr>dataType = ''p/T'', md5Sum = ''*'', definition' = ''int32 y''\<rparr>, None) \<and>
   compound_members demo_env ''p/T'' = [] \<and>
   definition' \<lparr>dataType = ''p/T'', md5Sum = ''*'', definition' = ''int32 y''\<rparr> =
     raw_text demo_env ''p/T'' \<and>
   dataType \<lparr>dataType = ''p/T'', md5Sum = ''*'', definition' = ''int32 y''\<rparr> =
     (if raw_text demo_env ''p/T'' = [] then [] else ''p/T'')"
proof -
  have h: "load demo_env ''p/T'' stale_type =
     (\<lparr>dataType = ''p/T'', md5Sum = ''*'', definition' = ''int32 y''\<rparr>, None)"
    by code_simp
  have c: "compound_members demo_env ''p/T'' = []"
    by code_simp
  show ?thesis
    by (intro conjI h c conjunct1[OF load_without_compound_members[OF h c]]
        conjunct2[OF load_without_compound_members[OF h c]])
qed

text \<open>
  Claim C4, as stated: every type processed after the first one has its text preceded by
  the separator. A type whose file is empty adds nothing, no separator either: the load
  of \<^verbatim>\<open>p/C\<close> processes \<^verbatim>\<open>p/C\<close> and then \<^verbatim>\<open>p/E\<close>, whose file is empty, and the definition
  is the text of \<^verbatim>\<open>p/C\<close> alone.
\<close>

theorem load_blocks_separated_counterexample:
  "snd (load demo_env ''p/C'' stale_type) = None \<and>
   processed_types demo_env {''p/C''} [''p/C''] = [''p/C'', ''p/E''] \<and>
   definition' (fst (load demo_env ''p/C'' stale_type)) = ''p/E e'' \<and>
   definition' (fst (load demo_env ''p/C'' stale_type)) \<noteq>
     raw_text demo_env ''p/C'' @
     concat (map (block_as_specified demo_env)
       (tl (processed_types demo_env {''p/C''} [''p/C''])))"
  by code_simp

text \<open>
  Claim C4, amended: after a load that ends normally, the definition is the text of the
  root file, with no separator before it, followed by one block for each type processed
  after the root, in order; the block of a type with a non-empty file is the separator
  (a newline, a rule of 80 equals signs, and the line \<^verbatim>\<open>MSG: \<close> with the identifier of
  the type) and then the text of the file; a type with an empty file adds nothing.
\<close>

theorem load_blocks_separated:
  assumes "load env root this = (this', None)"
  shows "definition' this' =
           raw_text env root @ concat (map (block env) (tl (processed_types env {root} [root])))"
proof -
  have r: "snd (load_loop env {root} [root] (clear this)) = None"
    using assms unfolding load_result by simp
  from processed_types_root[OF r] obtain rest where
    p: "processed_types env {root} [root] = root # rest"
    and e: "raw_text env root = [] \<longrightarrow> rest = []" by auto
  have d: "definition' this' = foldl (emit env) [] (root # rest)"
    using assms unfolding load_result p
    by (auto simp del: processed_types.simps load_loop.simps)
  show ?thesis
  proof (cases "raw_text env root = []")
    case True
    then show ?thesis using d e p by (simp add: emit_Nil)
  next
    case False
    then show ?thesis using d p by (simp add: emit_Nil foldl_emit_nonempty)
  qed
qed

theorem load_blocks_separated_witness:
  "load demo_env ''p/R'' stale_type =
     (\<lparr>dataType = ''p/R'', md5Sum = ''*'',
       definition' =
         ''p/S a'' @ [CHR 0x0A] @ ''p/T b'' @ [CHR 0x0A] @ ''p/S c'' @
         [CHR 0x0A] @ replicate 80 (CHR ''='') @ [CHR 0x0A] @ ''MSG: p/S'' @ [CHR 0x0A] @
         ''p/T t'' @
         [CHR 0x0A] @ replicate 80 (CHR ''='') @ [CHR 0x0A] @ ''MSG: p/T'' @ [CHR 0x0A] @
         ''int32 y''\<rparr>,
      None) \<and>
   ''p/S a'' @ [CHR 0x0A] @ ''p/T b'' @ [CHR 0x0A] @ ''p/S c'' @
     [CHR 0x0A] @ replicate 80 (CHR ''='') @ [CHR 0x0A] @ ''MSG: p/S'' @ [CHR 0x0A] @
     ''p/T t'' @
     [CHR 0x0A] @ replicate 80 (CHR ''='') @ [CHR 0x0A] @ ''MSG: p/T'' @ [CHR 0x0A] @
     ''int32 y'' =
     raw_text demo_env ''p/R'' @
     concat (map (block demo_env) (tl (processed_types demo_env {''p/R''} [''p/R''])))"
proof -
  have h: "load demo_env ''p/R'' stale_type =
     (\<lparr>dataType = ''p/R'', md5Sum = ''*'',
       definition' =
         ''p/S a'' @ [CHR 0x0A] @ ''p/T b'' @ [CHR 0x0A] @ ''p/S c'' @
         [CHR 0x0A] @ replicate 80 (CHR ''='') @ [CHR 0x0A] @ ''MSG: p/S'' @ [CHR 0x0A] @
         ''p/T t'' @
         [CHR 0x0A] @ replicate 80 (CHR ''='') @ [CHR 0x0A] @ ''MSG: p/T'' @ [CHR 0x0A] @
         ''int32 y''\<rparr>,
      None)"
    by code_simp
  from load_blocks_separated[OF h] h show ?thesis by simp
qed

text \<open>
  Claim C3, as stated: a compound type reachable through several member fields is loaded
  and emitted exactly once. The file of \<^verbatim>\<open>p/Q\<close> names \<^verbatim>\<open>p/E\<close> in two member fields and
  the file of \<^verbatim>\<open>p/E\<close> is empty: \<^verbatim>\<open>p/E\<close> is loaded once and emits no block at all. The
  definition is the text of \<^verbatim>\<open>p/Q\<close> alone, and the object is the one that results when
  \<^verbatim>\<open>p/E\<close> is builtin and never loaded.
\<close>

theorem load_each_type_once_counterexample:
  "snd (load twice_env ''p/Q'' stale_type) = None \<and>
   compound_members twice_env ''p/Q'' = [''p/E'', ''p/E''] \<and>
   processed_types twice_env {''p/Q''} [''p/Q''] = [''p/Q'', ''p/E''] \<and>
   definition' (fst (load twice_env ''p/Q'' stale_type)) = raw_text twice_env ''p/Q'' \<and>
   definition' (fst (load twice_env ''p/Q'' stale_type)) \<noteq>
     raw_text twice_env ''p/Q'' @ block_as_specified twice_env ''p/E'' \<and>
   processed_types twice_builtin_env {''p/Q''} [''p/Q''] = [''p/Q''] \<and>
   load twice_builtin_env ''p/Q'' stale_type = load twice_env ''p/Q'' stale_type"
  by code_simp

text \<open>
  Claim C3, amended: after a load that ends normally, no identifier has been processed
  twice, and every compound member of a processed type has been processed, so that each
  is loaded exactly once; the processed types are, in order, the first occurrences in the
  sequence made of the root and of the compound members of the processed types, taken in
  the order of processing and of the lines, so that a type named by several members
  stands where it was first met; and the definition is made of what the processed types
  emit in that order: one block for a type whose file is not empty, and nothing for a
  type whose file is empty.
\<close>

theorem load_each_type_once:
  assumes "load env root this = (this', None)"
  shows "distinct (processed_types env {root} [root]) \<and>
         set (concat (map (compound_members env) (processed_types env {root} [root]))) \<subseteq>
           set (processed_types env {root} [root]) \<and>
         processed_types env {root} [root] =
           first_occurrences {}
             (root # concat (map (compound_members env) (processed_types env {root} [root]))) \<and>
         definition' this' = foldl (emit env) [] (processed_types env {root} [root])"
proof -
  have r: "snd (load_loop env {root} [root] (clear this)) = None"
    using assms unfolding load_result by simp
  have f: "processed_types env {root} [root] =
           first_occurrences {}
             (root # concat (map (compound_members env) (processed_types env {root} [root])))"
    using processed_types_fifo[OF r] by simp
  have "distinct (processed_types env {root} [root])"
    by (subst f) (rule distinct_first_occurrences)
  moreover have "set (concat (map (compound_members env) (processed_types env {root} [root]))) \<subseteq>
      set (processed_types env {root} [root])"
    by (subst (2) f) (auto simp: set_first_occurrences)
  moreover have "definition' this' = foldl (emit env) [] (processed_types env {root} [root])"
    using assms unfolding load_result
    by (auto simp del: processed_types.simps load_loop.simps)
  ultimately show ?thesis using f by blast
qed

theorem load_each_type_once_witness:
  "load demo_env ''p/R'' stale_type =
     (\<lparr>dataType = ''p/R'', md5Sum = ''*'',
       definition' =
         ''p/S a'' @ [CHR 0x0A] @ ''p/T b'' @ [CHR 0x0A] @ ''p/S c'' @
         separator ''p/S'' @ ''p/T t'' @ separator ''p/T'' @ ''int32 y''\<rparr>, None) \<and>
   compound_members demo_env ''p/R'' = [''p/S'', ''p/T'', ''p/S''] \<and>
   processed_types demo_env {''p/R''} [''p/R''] = [''p/R'', ''p/S'', ''p/T''] \<and>
   distinct (processed_types demo_env {''p/R''} [''p/R'']) \<and>
   processed_types demo_env {''p/R''} [''p/R''] =
     first_occurrences {}
       (''p/R'' # concat (map (compound_members demo_env)
          (processed_types demo_env {''p/R''} [''p/R''])))"
proof -
  have h: "load demo_env ''p/R'' stale_type =
     (\<lparr>dataType = ''p/R'', md5Sum = ''*'',
       definition' =
         ''p/S a'' @ [CHR 0x0A] @ ''p/T b'' @ [CHR 0x0A] @ ''p/S c'' @
         separator ''p/S'' @ ''p/T t'' @ separator ''p/T'' @ ''int32 y''\<rparr>, None)"
    by code_simp
  have c: "compound_members demo_env ''p/R'' = [''p/S'', ''p/T'', ''p/S'']"
    by code_simp
  have p: "processed_types demo_env {''p/R''} [''p/R''] = [''p/R'', ''p/S'', ''p/T'']"
    by code_simp
  from load_each_type_once[OF h] h c p show ?thesis by blast
qed

end
